theory Spec2Isabelle
  imports Main "HOL-Library.Word"
begin

section \<open>JSON documents\<close>

text \<open>
  The two decoders of \<^verbatim>\<open>order.go\<close> receive the bytes of one JSON value and hand them to
  \<^verbatim>\<open>encoding/json\<close>. The bytes are modelled by the value they spell: \<open>Invalid\<close> stands for
  bytes that are not one well-formed JSON value, \<open>Valid j\<close> for the bytes of the value \<open>j\<close>.
  The members of an object are kept in the order of the text, duplicates included. A number
  literal made of an optional minus sign and digits is \<open>JInt\<close>; any other number literal
  (a fraction, an exponent) is \<open>JFloat\<close> with its text.
  White space around a value and the escapes inside a string belong to the text, not to the
  value, and are not modelled; a string is the bytes it stands for.
\<close>

datatype json =
    JNull
  | JBool bool
  | JInt int
  | JFloat string
  | JStr string
  | JArr "json list"
  | JObj "(string \<times> json) list"

datatype data = Invalid | Valid json

type_synonym RawMessage = json

type_synonym int64 = "64 word"

section \<open>Errors, panics and the results of a decode\<close>

datatype resource = TCharge | TCustomer | TOrderReturnList | TAddress | TSKU

datatype error = SyntaxError | UnmarshalTypeError | OtherError string

datatype panic =
    Nil_rawObject_parent
  | Nil_Parent_SKU
  | In_resource resource

text \<open>
  A Go function that fills its target and returns an \<^verbatim>\<open>error\<close> either returns (the target as
  it left it, and the error or \<^verbatim>\<open>nil\<close>) or panics.
\<close>

datatype 'a call = Return 'a "error option" | Panic panic

text \<open>
  Inside \<^verbatim>\<open>json.Unmarshal\<close> the decoding of one value into one target has three ends. A
  mismatch between the JSON value and the Go type is saved and decoding goes on
  (\<open>Done\<close> with the saved error); an error returned by a type's own \<^verbatim>\<open>UnmarshalJSON\<close> stops
  the whole decode at once (\<open>Aborted\<close>); a panic unwinds (\<open>Panicked\<close>).
\<close>

datatype 'a decoded = Done 'a "error option" | Aborted 'a error | Panicked panic

fun first_error :: "error option \<Rightarrow> error option \<Rightarrow> error option" where
  "first_error (Some e) _ = Some e"
| "first_error None e' = e'"

section \<open>The decoding rules of encoding/json used by this file\<close>

subsection \<open>Literals\<close>

definition string_value :: "json \<Rightarrow> string \<Rightarrow> string decoded" where
  "string_value j cur =
     (case j of
        JNull \<Rightarrow> Done cur None
      | JStr s \<Rightarrow> Done s None
      | _ \<Rightarrow> Done cur (Some UnmarshalTypeError))"

definition int64_value :: "json \<Rightarrow> int64 \<Rightarrow> int64 decoded" where
  "int64_value j cur =
     (case j of
        JNull \<Rightarrow> Done cur None
      | JInt n \<Rightarrow>
          (if - (2 ^ 63) \<le> n \<and> n < 2 ^ 63 then Done (word_of_int n) None
           else Done cur (Some UnmarshalTypeError))
      | _ \<Rightarrow> Done cur (Some UnmarshalTypeError))"

definition bool_value :: "json \<Rightarrow> bool \<Rightarrow> bool decoded" where
  "bool_value j cur =
     (case j of
        JNull \<Rightarrow> Done cur None
      | JBool b \<Rightarrow> Done b None
      | _ \<Rightarrow> Done cur (Some UnmarshalTypeError))"

subsection \<open>Pointers\<close>

text \<open>
  \<^verbatim>\<open>null\<close> sets a pointer to \<^verbatim>\<open>nil\<close>. For any other value a \<^verbatim>\<open>nil\<close> pointer is first made to
  point to a new zero value, before the value is looked at, and the value is then decoded
  into what the pointer points to.
\<close>

definition ptr_value ::
  "(json \<Rightarrow> 'a \<Rightarrow> 'a decoded) \<Rightarrow> 'a \<Rightarrow> json \<Rightarrow> 'a option \<Rightarrow> 'a option decoded" where
  "ptr_value dec zero j cur =
     (case j of
        JNull \<Rightarrow> Done None None
      | _ \<Rightarrow> map_decoded Some (dec j (case cur of None \<Rightarrow> zero | Some x \<Rightarrow> x)))"

subsection \<open>Structs\<close>

text \<open>
  A member of a JSON object goes to the struct field whose \<^verbatim>\<open>json\<close> tag is the member's name,
  and failing that to the first field whose tag equals the name up to the case of letters
  (with the two letters outside ASCII that \<^verbatim>\<open>encoding/json\<close> folds to \<^verbatim>\<open>k\<close> and \<^verbatim>\<open>s\<close>: the
  Kelvin sign, bytes E2 84 AA, and the long s, bytes C5 BF). A member that names no field is
  skipped.
\<close>

definition ascii_lower :: "char \<Rightarrow> char" where
  "ascii_lower c =
     (case map_of (zip ''ABCDEFGHIJKLMNOPQRSTUVWXYZ'' ''abcdefghijklmnopqrstuvwxyz'') c of
        Some l \<Rightarrow> l
      | None \<Rightarrow> c)"

fun fold_name :: "string \<Rightarrow> string" where
  "fold_name (a # b # c # cs) =
     (if a = CHR 0xE2 \<and> b = CHR 0x84 \<and> c = CHR 0xAA then CHR ''k'' # fold_name cs
      else if a = CHR 0xC5 \<and> b = CHR 0xBF then CHR ''s'' # fold_name (c # cs)
      else ascii_lower a # fold_name (b # c # cs))"
| "fold_name [a, b] =
     (if a = CHR 0xC5 \<and> b = CHR 0xBF then [CHR ''s'']
      else ascii_lower a # fold_name [b])"
| "fold_name [a] = [ascii_lower a]"
| "fold_name [] = []"

type_synonym 's field = "string \<times> (json \<Rightarrow> 's \<Rightarrow> 's decoded)"

definition field ::
  "string \<Rightarrow> ('s \<Rightarrow> 'a) \<Rightarrow> (('a \<Rightarrow> 'a) \<Rightarrow> 's \<Rightarrow> 's) \<Rightarrow> (json \<Rightarrow> 'a \<Rightarrow> 'a decoded) \<Rightarrow> 's field" where
  "field name get upd dec =
     (name, \<lambda>j s. map_decoded (\<lambda>x. upd (\<lambda>_. x) s) (dec j (get s)))"

definition find_field :: "'s field list \<Rightarrow> string \<Rightarrow> (json \<Rightarrow> 's \<Rightarrow> 's decoded) option" where
  "find_field fs key =
     (case map_of fs key of
        Some f \<Rightarrow> Some f
      | None \<Rightarrow> map_option snd (find (\<lambda>f. fold_name (fst f) = fold_name key) fs))"

fun object_members :: "'s field list \<Rightarrow> (string \<times> json) list \<Rightarrow> 's \<Rightarrow> 's decoded" where
  "object_members fs [] s = Done s None"
| "object_members fs ((key, v) # kvs) s =
     (case find_field fs key of
        None \<Rightarrow> object_members fs kvs s
      | Some f \<Rightarrow>
          (case f v s of
             Done s' e \<Rightarrow>
               (case object_members fs kvs s' of
                  Done s'' e' \<Rightarrow> Done s'' (first_error e e')
                | Aborted s'' e' \<Rightarrow> Aborted s'' e'
                | Panicked p \<Rightarrow> Panicked p)
           | Aborted s' e \<Rightarrow> Aborted s' e
           | Panicked p \<Rightarrow> Panicked p))"

definition struct_value :: "'s field list \<Rightarrow> json \<Rightarrow> 's \<Rightarrow> 's decoded" where
  "struct_value fs j s =
     (case j of
        JNull \<Rightarrow> Done s None
      | JObj kvs \<Rightarrow> object_members fs kvs s
      | _ \<Rightarrow> Done s (Some UnmarshalTypeError))"

subsection \<open>Slices and maps of strings\<close>

text \<open>
  \<^verbatim>\<open>null\<close> sets a slice to \<^verbatim>\<open>nil\<close> (the empty list here, as is an empty slice). The elements of
  an array are decoded one after the other, the element at a position the slice already had
  into the element that is there, any further one into a zero element; the slice ends with
  the length of the array. (What a slice keeps beyond its length after a shorter array for a
  repeated member is not modelled: further elements always start from zero.)
\<close>

fun array_elements ::
  "(json \<Rightarrow> 'a \<Rightarrow> 'a decoded) \<Rightarrow> 'a \<Rightarrow> json list \<Rightarrow> 'a list \<Rightarrow> 'a list decoded" where
  "array_elements dec zero [] old = Done [] None"
| "array_elements dec zero (x # xs) old =
     (case dec x (case old of [] \<Rightarrow> zero | y # _ \<Rightarrow> y) of
        Done y e \<Rightarrow>
          (case array_elements dec zero xs (tl old) of
             Done ys e' \<Rightarrow> Done (y # ys) (first_error e e')
           | Aborted ys e' \<Rightarrow> Aborted (y # ys) e'
           | Panicked p \<Rightarrow> Panicked p)
      | Aborted y e \<Rightarrow> Aborted (y # tl old) e
      | Panicked p \<Rightarrow> Panicked p)"

definition slice_value ::
  "(json \<Rightarrow> 'a \<Rightarrow> 'a decoded) \<Rightarrow> 'a \<Rightarrow> json \<Rightarrow> 'a list \<Rightarrow> 'a list decoded" where
  "slice_value dec zero j cur =
     (case j of
        JNull \<Rightarrow> Done [] None
      | JArr xs \<Rightarrow> array_elements dec zero xs cur
      | _ \<Rightarrow> Done cur (Some UnmarshalTypeError))"

text \<open>
  A \<^verbatim>\<open>map[string]string\<close>: \<^verbatim>\<open>null\<close> sets the map to \<^verbatim>\<open>nil\<close> (the empty map here); the members of
  an object are added to the map the field holds, each value decoded into a new empty string.
\<close>

fun map_members :: "(string \<times> json) list \<Rightarrow> (string \<rightharpoonup> string) \<Rightarrow> (string \<rightharpoonup> string) decoded" where
  "map_members [] m = Done m None"
| "map_members ((key, v) # kvs) m =
     (case string_value v [] of
        Done s e \<Rightarrow>
          (case map_members kvs (m(key \<mapsto> s)) of
             Done m' e' \<Rightarrow> Done m' (first_error e e')
           | Aborted m' e' \<Rightarrow> Aborted m' e'
           | Panicked p \<Rightarrow> Panicked p)
      | Aborted s e \<Rightarrow> Aborted m e
      | Panicked p \<Rightarrow> Panicked p)"

definition map_value :: "json \<Rightarrow> (string \<rightharpoonup> string) \<Rightarrow> (string \<rightharpoonup> string) decoded" where
  "map_value j m =
     (case j of
        JNull \<Rightarrow> Done Map.empty None
      | JObj kvs \<Rightarrow> map_members kvs m
      | _ \<Rightarrow> Done m (Some UnmarshalTypeError))"

subsection \<open>Maps of raw fragments\<close>

text \<open>
  Decoding into a \<^verbatim>\<open>map[string]*json.RawMessage\<close>: the member names are used as they are
  written. A member whose value is \<^verbatim>\<open>null\<close> is stored as a \<^verbatim>\<open>nil\<close> pointer, any other member as
  a pointer to the member's own text; a later member replaces an earlier one of the same
  name. A \<^verbatim>\<open>nil\<close> map and an empty one are both the empty map here: the code only reads it.
\<close>

type_synonym rawmap = "string \<rightharpoonup> RawMessage option"

fun rawmap_members :: "(string \<times> json) list \<Rightarrow> rawmap \<Rightarrow> rawmap" where
  "rawmap_members [] m = m"
| "rawmap_members ((key, v) # kvs) m =
     rawmap_members kvs (m(key \<mapsto> (case v of JNull \<Rightarrow> None | _ \<Rightarrow> Some v)))"

definition rawmap_value :: "json \<Rightarrow> rawmap \<Rightarrow> rawmap decoded" where
  "rawmap_value j m =
     (case j of
        JNull \<Rightarrow> Done Map.empty None
      | JObj kvs \<Rightarrow> Done (rawmap_members kvs m) None
      | _ \<Rightarrow> Done m (Some UnmarshalTypeError))"

text \<open>The index expression \<^verbatim>\<open>m[key]\<close>: the zero value, a \<^verbatim>\<open>nil\<close> pointer, for a missing key.\<close>

definition index :: "rawmap \<Rightarrow> string \<Rightarrow> RawMessage option" where
  "index m key = (case m key of None \<Rightarrow> None | Some p \<Rightarrow> p)"

subsection \<open>json.Unmarshal\<close>

text \<open>
  \<^verbatim>\<open>json.Unmarshal(data, &v)\<close> checks that the bytes are one JSON value before it touches \<open>v\<close>,
  then decodes by the rules of the type of \<open>v\<close>, given here as the first argument. It returns
  the error that stopped the decode, or else the first mismatch it saved.
\<close>

definition json_Unmarshal :: "(json \<Rightarrow> 'a \<Rightarrow> 'a decoded) \<Rightarrow> data \<Rightarrow> 'a \<Rightarrow> 'a call" where
  "json_Unmarshal dec d v =
     (case d of
        Invalid \<Rightarrow> Return v (Some SyntaxError)
      | Valid j \<Rightarrow>
          (case dec j v of
             Done v' e \<Rightarrow> Return v' e
           | Aborted v' e \<Rightarrow> Return v' (Some e)
           | Panicked p \<Rightarrow> Panic p))"

text \<open>
  A target whose type has its own \<^verbatim>\<open>UnmarshalJSON\<close> is handed the text of the value; an error
  it returns stops the decode.
\<close>

definition unmarshaler_value :: "(data \<Rightarrow> 'a \<Rightarrow> 'a call) \<Rightarrow> json \<Rightarrow> 'a \<Rightarrow> 'a decoded" where
  "unmarshaler_value um j cur =
     (case um (Valid j) cur of
        Return v None \<Rightarrow> Done v None
      | Return v (Some e) \<Rightarrow> Aborted v e
      | Panic p \<Rightarrow> Panicked p)"

section \<open>Resources declared in other files\<close>

text \<open>
  \<^verbatim>\<open>Charge\<close>, \<^verbatim>\<open>Customer\<close>, \<^verbatim>\<open>OrderReturnList\<close>, \<^verbatim>\<open>Address\<close> and \<^verbatim>\<open>SKU\<close> are declared
  elsewhere in the package. Their values are of a type \<open>'r\<close> that is left open, and what this
  file needs of them is a parameter of every decoder below: the zero value of each type, how
  a JSON value is decoded into a value of each type, and the \<^verbatim>\<open>ID\<close> field of a \<^verbatim>\<open>SKU\<close>.
  Decoding into such a type ends as \<open>Decoded\<close> (the value it left and the mismatch it saved,
  if any), as \<open>Failed\<close> (the type's own \<^verbatim>\<open>UnmarshalJSON\<close> returned an error) or as \<open>Crashed\<close>
  (it panicked).
\<close>

datatype 'r resource_result = Decoded 'r "error option" | Failed 'r error | Crashed

record 'r resources =
  zero_of :: "resource \<Rightarrow> 'r"
  decode_into :: "resource \<Rightarrow> json \<Rightarrow> 'r \<Rightarrow> 'r resource_result"
  ID_of_SKU :: "'r \<Rightarrow> string"

definition resource_value :: "'r resources \<Rightarrow> resource \<Rightarrow> json \<Rightarrow> 'r \<Rightarrow> 'r decoded" where
  "resource_value X t j cur =
     (case decode_into X t j cur of
        Decoded v e \<Rightarrow> Done v e
      | Failed v e \<Rightarrow> Aborted v e
      | Crashed \<Rightarrow> Panicked (In_resource t))"

section \<open>The order item\<close>

abbreviation OrderItemTypeCoupon :: string where "OrderItemTypeCoupon \<equiv> ''coupon''"
abbreviation OrderItemTypeShipping :: string where "OrderItemTypeShipping \<equiv> ''shipping''"
abbreviation OrderItemTypeSKU :: string where "OrderItemTypeSKU \<equiv> ''sku''"
abbreviation OrderItemTypeTax :: string where "OrderItemTypeTax \<equiv> ''tax''"

abbreviation OrderItemParentTypeCoupon :: string where "OrderItemParentTypeCoupon \<equiv> ''coupon''"
abbreviation OrderItemParentTypeShipping :: string where "OrderItemParentTypeShipping \<equiv> ''shipping''"
abbreviation OrderItemParentTypeSKU :: string where "OrderItemParentTypeSKU \<equiv> ''sku''"

record 'r OrderItemParent =
  ID :: string
  SKU :: "'r option"
  Type :: string

record 'r OrderItem =
  Amount :: int64
  Currency :: string
  Description :: string
  Parent :: "'r OrderItemParent option"
  Quantity :: int64
  Type :: string

definition zero_OrderItemParent :: "'r OrderItemParent" where
  "zero_OrderItemParent = \<lparr>ID = [], SKU = None, Type = []\<rparr>"

definition zero_OrderItem :: "'r OrderItem" where
  "zero_OrderItem =
     \<lparr>Amount = 0, Currency = [], Description = [], Parent = None, Quantity = 0, Type = []\<rparr>"

text \<open>
  The fields of \<^verbatim>\<open>OrderItem\<close> by their \<^verbatim>\<open>json\<close> tags; \<^verbatim>\<open>Parent\<close> is tagged \<^verbatim>\<open>"-"\<close> and takes no
  member. \<^verbatim>\<open>Currency\<close> and \<^verbatim>\<open>OrderItemType\<close> are string types.
\<close>

definition orderItem_fields :: "'r OrderItem field list" where
  "orderItem_fields =
     [field ''amount'' Amount Amount_update int64_value,
      field ''currency'' Currency Currency_update string_value,
      field ''description'' Description Description_update string_value,
      field ''quantity'' Quantity Quantity_update int64_value,
      field ''type'' OrderItem.Type OrderItem.Type_update string_value]"

text \<open>
  \<^verbatim>\<open>func (oi *OrderItem) UnmarshalJSON(data []byte) error\<close>. The third argument is what \<open>oi\<close>
  points to when the method is called.
\<close>

definition OrderItem_UnmarshalJSON ::
  "'r resources \<Rightarrow> data \<Rightarrow> 'r OrderItem \<Rightarrow> 'r OrderItem call" where
  "OrderItem_UnmarshalJSON X d oi =
     (case json_Unmarshal (struct_value orderItem_fields) d zero_OrderItem of
        Panic p \<Rightarrow> Panic p
      | Return v (Some err) \<Rightarrow> Return oi (Some err)
      | Return v None \<Rightarrow>
          (let parent = zero_OrderItemParent in
           case json_Unmarshal rawmap_value d Map.empty of
             Panic p \<Rightarrow> Panic p
           | Return rawObject (Some err) \<Rightarrow> Return (v\<lparr>Parent := Some parent\<rparr>) (Some err)
           | Return rawObject None \<Rightarrow>
               if OrderItem.Type v = OrderItemTypeCoupon then
                 (case index rawObject ''parent'' of
                    None \<Rightarrow> Panic Nil_rawObject_parent
                  | Some raw \<Rightarrow>
                      (case json_Unmarshal string_value (Valid raw) (OrderItemParent.ID parent) of
                         Panic p \<Rightarrow> Panic p
                       | Return i err \<Rightarrow>
                           if err \<noteq> None then
                             Return (v\<lparr>Parent := Some (parent\<lparr>OrderItemParent.ID := i,
                               OrderItemParent.Type := OrderItemParentTypeCoupon\<rparr>)\<rparr>) err
                           else
                             Return (v\<lparr>Parent := Some (parent\<lparr>OrderItemParent.ID := i\<rparr>)\<rparr>) err))
               else if OrderItem.Type v = OrderItemTypeShipping then
                 (case index rawObject ''parent'' of
                    None \<Rightarrow> Panic Nil_rawObject_parent
                  | Some raw \<Rightarrow>
                      (case json_Unmarshal string_value (Valid raw) (OrderItemParent.ID parent) of
                         Panic p \<Rightarrow> Panic p
                       | Return i err \<Rightarrow>
                           if err \<noteq> None then
                             Return (v\<lparr>Parent := Some (parent\<lparr>OrderItemParent.ID := i,
                               OrderItemParent.Type := OrderItemParentTypeShipping\<rparr>)\<rparr>) err
                           else
                             Return (v\<lparr>Parent := Some (parent\<lparr>OrderItemParent.ID := i\<rparr>)\<rparr>) err))
               else if OrderItem.Type v = OrderItemTypeSKU then
                 (case index rawObject ''parent'' of
                    None \<Rightarrow> Panic Nil_rawObject_parent
                  | Some raw \<Rightarrow>
                      (case json_Unmarshal (ptr_value (resource_value X TSKU) (zero_of X TSKU))
                              (Valid raw) (OrderItemParent.SKU parent) of
                         Panic p \<Rightarrow> Panic p
                       | Return sku err \<Rightarrow>
                           if err \<noteq> None then
                             (case sku of
                                None \<Rightarrow> Panic Nil_Parent_SKU
                              | Some s \<Rightarrow>
                                  Return (v\<lparr>Parent := Some (parent\<lparr>OrderItemParent.SKU := sku,
                                    OrderItemParent.ID := ID_of_SKU X s,
                                    OrderItemParent.Type := OrderItemParentTypeSKU\<rparr>)\<rparr>) err)
                           else
                             Return (v\<lparr>Parent := Some (parent\<lparr>OrderItemParent.SKU := sku\<rparr>)\<rparr>) err))
               else Return (v\<lparr>Parent := Some parent\<rparr>) None))"

section \<open>The order\<close>

record StatusTransitions =
  Canceled :: int64
  Fulfilled :: int64
  Paid :: int64
  Returned :: int64

record DeliveryEstimate =
  Date :: string
  Earliest :: string
  Latest :: string
  Type :: string

record ShippingMethod =
  Amount :: int64
  ID :: string
  Currency :: string
  DeliveryEstimate :: "DeliveryEstimate option"
  Description :: string

record 'r Shipping =
  Address :: "'r option"
  Carrier :: string
  Name :: string
  Phone :: string
  TrackingNumber :: string

record 'r Order =
  Amount :: int64
  AmountReturned :: int64
  Application :: string
  ApplicationFee :: int64
  Charge :: "'r option"
  Created :: int64
  Currency :: string
  Customer :: 'r
  Email :: string
  ID :: string
  Items :: "'r OrderItem option list"
  Livemode :: bool
  Metadata :: "string \<rightharpoonup> string"
  Returns :: "'r option"
  SelectedShippingMethod :: "string option"
  Shipping :: "'r Shipping option"
  ShippingMethods :: "ShippingMethod option list"
  Status :: string
  StatusTransitions :: StatusTransitions
  Updated :: int64

definition zero_StatusTransitions :: StatusTransitions where
  "zero_StatusTransitions = \<lparr>Canceled = 0, Fulfilled = 0, Paid = 0, Returned = 0\<rparr>"

definition zero_DeliveryEstimate :: DeliveryEstimate where
  "zero_DeliveryEstimate = \<lparr>Date = [], Earliest = [], Latest = [], Type = []\<rparr>"

definition zero_ShippingMethod :: ShippingMethod where
  "zero_ShippingMethod =
     \<lparr>ShippingMethod.Amount = 0, ID = [], Currency = [], DeliveryEstimate = None,
      Description = []\<rparr>"

definition zero_Shipping :: "'r Shipping" where
  "zero_Shipping = \<lparr>Address = None, Carrier = [], Name = [], Phone = [], TrackingNumber = []\<rparr>"

definition zero_Order :: "'r resources \<Rightarrow> 'r Order" where
  "zero_Order X =
     \<lparr>Order.Amount = 0, AmountReturned = 0, Application = [], ApplicationFee = 0,
      Charge = None, Created = 0, Currency = [], Customer = zero_of X TCustomer, Email = [],
      ID = [], Items = [], Livemode = False, Metadata = Map.empty, Returns = None,
      SelectedShippingMethod = None, Shipping = None, ShippingMethods = [], Status = [],
      StatusTransitions = zero_StatusTransitions, Updated = 0\<rparr>"

text \<open>The fields of each struct by their \<^verbatim>\<open>json\<close> tags, as the declarations give them.\<close>

definition statusTransitions_fields :: "StatusTransitions field list" where
  "statusTransitions_fields =
     [field ''canceled'' Canceled Canceled_update int64_value,
      field ''fulfiled'' Fulfilled Fulfilled_update int64_value,
      field ''paid'' Paid Paid_update int64_value,
      field ''returned'' Returned Returned_update int64_value]"

definition deliveryEstimate_fields :: "DeliveryEstimate field list" where
  "deliveryEstimate_fields =
     [field ''date'' Date Date_update string_value,
      field ''earliest'' Earliest Earliest_update string_value,
      field ''latest'' Latest Latest_update string_value,
      field ''type'' DeliveryEstimate.Type DeliveryEstimate.Type_update string_value]"

definition shippingMethod_fields :: "ShippingMethod field list" where
  "shippingMethod_fields =
     [field ''amount'' ShippingMethod.Amount ShippingMethod.Amount_update int64_value,
      field ''id'' ShippingMethod.ID ShippingMethod.ID_update string_value,
      field ''currency'' ShippingMethod.Currency ShippingMethod.Currency_update string_value,
      field ''delivery_estimate'' ShippingMethod.DeliveryEstimate
        ShippingMethod.DeliveryEstimate_update
        (ptr_value (struct_value deliveryEstimate_fields) zero_DeliveryEstimate),
      field ''description'' ShippingMethod.Description ShippingMethod.Description_update
        string_value]"

definition shipping_fields :: "'r resources \<Rightarrow> 'r Shipping field list" where
  "shipping_fields X =
     [field ''address'' Address Address_update
        (ptr_value (resource_value X TAddress) (zero_of X TAddress)),
      field ''carrier'' Carrier Carrier_update string_value,
      field ''name'' Name Name_update string_value,
      field ''phone'' Phone Phone_update string_value,
      field ''tracking_number'' TrackingNumber TrackingNumber_update string_value]"

definition order_fields :: "'r resources \<Rightarrow> 'r Order field list" where
  "order_fields X =
     [field ''amount'' Order.Amount Order.Amount_update int64_value,
      field ''amount_returned'' AmountReturned AmountReturned_update int64_value,
      field ''application'' Application Application_update string_value,
      field ''application_fee'' ApplicationFee ApplicationFee_update int64_value,
      field ''charge'' Charge Charge_update
        (ptr_value (resource_value X TCharge) (zero_of X TCharge)),
      field ''created'' Created Created_update int64_value,
      field ''currency'' Order.Currency Order.Currency_update string_value,
      field ''customer'' Customer Customer_update (resource_value X TCustomer),
      field ''email'' Email Email_update string_value,
      field ''id'' Order.ID Order.ID_update string_value,
      field ''items'' Items Items_update
        (slice_value
           (ptr_value (unmarshaler_value (OrderItem_UnmarshalJSON X)) zero_OrderItem) None),
      field ''livemode'' Livemode Livemode_update bool_value,
      field ''metadata'' Metadata Metadata_update map_value,
      field ''returns'' Returns Returns_update
        (ptr_value (resource_value X TOrderReturnList) (zero_of X TOrderReturnList)),
      field ''selected_shipping_method'' SelectedShippingMethod SelectedShippingMethod_update
        (ptr_value string_value []),
      field ''shipping'' Shipping Shipping_update
        (ptr_value (struct_value (shipping_fields X)) zero_Shipping),
      field ''shipping_methods'' ShippingMethods ShippingMethods_update
        (slice_value (ptr_value (struct_value shippingMethod_fields) zero_ShippingMethod) None),
      field ''status'' Status Status_update string_value,
      field ''status_transitions'' StatusTransitions StatusTransitions_update
        (struct_value statusTransitions_fields),
      field ''updated'' Updated Updated_update int64_value]"

text \<open>
  Modelled from the spec: \<^verbatim>\<open>ParseID\<close>, a function of the package that this file calls and does
  not define. By the spec it attempts "to interpret the payload as a bare JSON string" and,
  if successful, gives that string.
\<close>

definition ParseID :: "data \<Rightarrow> string \<times> bool" where
  "ParseID d = (case d of Valid (JStr s) \<Rightarrow> (s, True) | _ \<Rightarrow> ([], False))"

text \<open>
  \<^verbatim>\<open>func (o *Order) UnmarshalJSON(data []byte) error\<close>. The third argument is what \<open>o\<close> points to
  when the method is called.
\<close>

definition Order_UnmarshalJSON :: "'r resources \<Rightarrow> data \<Rightarrow> 'r Order \<Rightarrow> 'r Order call" where
  "Order_UnmarshalJSON X d ord =
     (case ParseID d of
        (i, True) \<Rightarrow> Return (ord\<lparr>Order.ID := i\<rparr>) None
      | (i, False) \<Rightarrow>
          (case json_Unmarshal (struct_value (order_fields X)) d (zero_Order X) of
             Panic p \<Rightarrow> Panic p
           | Return v (Some err) \<Rightarrow> Return ord (Some err)
           | Return v None \<Rightarrow> Return v None))"

text \<open>
  Modelled from the spec: the resources declared in other files of the package, for the
  examples below. The spec describes a SKU only as a full object with an \<^verbatim>\<open>id\<close> member
  (\<^verbatim>\<open>Parent.SKU.ID == "sku_1"\<close>) and leaves the others out of scope, so each is kept here as a
  struct with the one string field \<^verbatim>\<open>ID\<close>, tagged \<^verbatim>\<open>id\<close>, decoded by the rules for structs.
\<close>

record Resource =
  ID :: string

definition spec_resources :: "Resource resources" where
  "spec_resources =
     \<lparr>zero_of = (\<lambda>t. \<lparr>ID = []\<rparr>),
      decode_into = (\<lambda>t j cur.
        case struct_value [field ''id'' Resource.ID Resource.ID_update string_value] j cur of
          Done v e \<Rightarrow> Decoded v e
        | Aborted v e \<Rightarrow> Failed v e
        | Panicked p \<Rightarrow> Crashed),
      ID_of_SKU = Resource.ID\<rparr>"

section \<open>Notions used in the statements\<close>

text \<open>
  What the members of an object leave in the \<^verbatim>\<open>ID\<close> field of an order that held \<open>cur\<close>, when
  the object decodes without error: each member whose name is \<^verbatim>\<open>id\<close> up to case sets the field
  if its value is a string and leaves it if its value is \<^verbatim>\<open>null\<close>; the last one wins.
\<close>

fun id_member :: "(string \<times> json) list \<Rightarrow> string \<Rightarrow> string" where
  "id_member [] cur = cur"
| "id_member ((key, v) # kvs) cur =
     id_member kvs
       (if fold_name key = ''id'' then (case v of JStr s \<Rightarrow> s | _ \<Rightarrow> cur) else cur)"

text \<open>
  The payloads that are of no shape a struct or a map can take: bytes that are not JSON, a
  number, a boolean, an array. \<^verbatim>\<open>json.Unmarshal\<close> reports a syntax error for the first and a
  type mismatch for the others.
\<close>

definition other_shape :: "data \<Rightarrow> bool" where
  "other_shape d =
     (case d of
        Invalid \<Rightarrow> True
      | Valid j \<Rightarrow> (case j of JInt n \<Rightarrow> True | JFloat t \<Rightarrow> True | JBool b \<Rightarrow> True
                    | JArr xs \<Rightarrow> True | _ \<Rightarrow> False))"

definition shape_error :: "data \<Rightarrow> error" where
  "shape_error d = (case d of Invalid \<Rightarrow> SyntaxError | Valid j \<Rightarrow> UnmarshalTypeError)"

section \<open>Facts about the decoding rules\<close>

lemma first_error_None [simp]: "first_error e e' = None \<longleftrightarrow> e = None \<and> e' = None"
  by (cases e) simp_all

lemma find_Some_in_set: "find P xs = Some x \<Longrightarrow> x \<in> set xs"
  by (induction xs) (auto split: if_splits)

lemma find_field_in_set: "find_field fs key = Some f \<Longrightarrow> \<exists>n. (n, f) \<in> set fs"
proof (cases "map_of fs key")
  case None
  assume "find_field fs key = Some f"
  with None obtain x where "find (\<lambda>f. fold_name (fst f) = fold_name key) fs = Some x" "f = snd x"
    by (auto simp: find_field_def)
  then have "(fst x, f) \<in> set fs"
    using find_Some_in_set [of _ fs x] by simp
  then show ?thesis ..
next
  case (Some g)
  assume "find_field fs key = Some f"
  with Some show ?thesis
    by (auto simp: find_field_def dest: map_of_SomeD)
qed

lemma object_members_not_Panicked:
  assumes "\<And>n f j s. (n, f) \<in> set fs \<Longrightarrow> f j s \<noteq> Panicked p"
  shows "object_members fs kvs s \<noteq> Panicked p"
proof (induction kvs arbitrary: s)
  case Nil
  show ?case by simp
next
  case (Cons kv kvs)
  obtain key v where kv: "kv = (key, v)" by (cases kv)
  show ?case
  proof (cases "find_field fs key")
    case None
    with Cons kv show ?thesis by simp
  next
    case (Some f)
    then obtain n where "(n, f) \<in> set fs" using find_field_in_set by blast
    then have "f v s \<noteq> Panicked p" using assms by blast
    with Some kv Cons show ?thesis
      by (auto split: decoded.splits)
  qed
qed

lemma scalar_not_Panicked [simp]:
  "string_value j c \<noteq> Panicked p" "int64_value j n \<noteq> Panicked p" "bool_value j b \<noteq> Panicked p"
  by (auto simp: string_value_def int64_value_def bool_value_def split: json.splits)

lemma scalar_not_Aborted [simp]:
  "string_value j c \<noteq> Aborted x e" "int64_value j n \<noteq> Aborted y e" "bool_value j b \<noteq> Aborted z e"
  by (auto simp: string_value_def int64_value_def bool_value_def split: json.splits)

lemma map_decoded_eq_Panicked [simp]: "map_decoded g r = Panicked p \<longleftrightarrow> r = Panicked p"
  by (cases r) simp_all

lemma orderItem_step1_not_Panic:
  "json_Unmarshal (struct_value orderItem_fields) d z \<noteq> Panic p"
proof -
  have "object_members orderItem_fields kvs s \<noteq> Panicked p" for kvs and s :: "'a OrderItem"
    by (rule object_members_not_Panicked) (auto simp: orderItem_fields_def field_def)
  then show ?thesis
    by (auto simp: json_Unmarshal_def struct_value_def split: data.splits json.splits decoded.splits)
qed

lemma json_Unmarshal_string_not_Panic [simp]: "json_Unmarshal string_value d c \<noteq> Panic p"
  by (auto simp: json_Unmarshal_def split: data.splits decoded.splits)

lemma json_Unmarshal_rawmap_not_Panic [simp]: "json_Unmarshal rawmap_value d m \<noteq> Panic p"
  by (auto simp: json_Unmarshal_def rawmap_value_def split: data.splits decoded.splits json.splits)

lemma ptr_value_allocates:
  "ptr_value dec z j cur = Done None e \<Longrightarrow> j = JNull \<and> e = None"
  "ptr_value dec z j cur \<noteq> Aborted None e'"
  by (cases j; cases "dec j (case cur of None \<Rightarrow> z | Some x \<Rightarrow> x)"; simp add: ptr_value_def)+

lemma json_Unmarshal_ptr_Valid:
  "json_Unmarshal (ptr_value dec z) (Valid raw) cur = Return None err \<Longrightarrow> raw = JNull \<and> err = None"
  by (auto simp: json_Unmarshal_def split: decoded.splits dest: ptr_value_allocates(1)
      simp: ptr_value_allocates(2))

section \<open>Facts about the decoder of order items\<close>

lemma OrderItem_string_parent:
  assumes "json_Unmarshal (struct_value orderItem_fields) d zero_OrderItem = Return v None"
    and "json_Unmarshal rawmap_value d Map.empty = Return rawObject None"
    and "index rawObject ''parent'' = Some raw"
    and "OrderItem.Type v = OrderItemTypeCoupon \<or> OrderItem.Type v = OrderItemTypeShipping"
    and "json_Unmarshal string_value (Valid raw) [] = Return i err"
  shows "OrderItem_UnmarshalJSON X d oi =
           Return (v\<lparr>Parent := Some \<lparr>OrderItemParent.ID = i, SKU = None,
             Type = (if err = None then [] else OrderItem.Type v)\<rparr>\<rparr>) err"
  using assms by (auto simp: OrderItem_UnmarshalJSON_def zero_OrderItemParent_def)

lemma OrderItem_sku_parent:
  assumes "json_Unmarshal (struct_value orderItem_fields) d zero_OrderItem = Return v None"
    and "json_Unmarshal rawmap_value d Map.empty = Return rawObject None"
    and "index rawObject ''parent'' = Some raw"
    and "OrderItem.Type v = OrderItemTypeSKU"
    and "json_Unmarshal (ptr_value (resource_value X TSKU) (zero_of X TSKU)) (Valid raw) None = Return (Some s) err"
  shows "OrderItem_UnmarshalJSON X d oi =
           Return (v\<lparr>Parent := Some \<lparr>OrderItemParent.ID = (if err = None then [] else ID_of_SKU X s),
             SKU = Some s, Type = (if err = None then [] else OrderItemParentTypeSKU)\<rparr>\<rparr>) err"
  using assms by (auto simp: OrderItem_UnmarshalJSON_def zero_OrderItemParent_def)

lemma OrderItem_no_parent:
  fixes X :: "'r resources" and v :: "'r OrderItem"
  assumes "json_Unmarshal (struct_value orderItem_fields) d zero_OrderItem = Return v None"
    and "json_Unmarshal rawmap_value d Map.empty = Return rawObject None"
    and "index rawObject ''parent'' = None"
    and "OrderItem.Type v = OrderItemTypeCoupon \<or> OrderItem.Type v = OrderItemTypeShipping
           \<or> OrderItem.Type v = OrderItemTypeSKU"
  shows "OrderItem_UnmarshalJSON X d oi = Panic Nil_rawObject_parent"
  using assms by (auto simp: OrderItem_UnmarshalJSON_def)

lemma OrderItem_other_type:
  fixes X :: "'r resources" and v :: "'r OrderItem"
  assumes "json_Unmarshal (struct_value orderItem_fields) d zero_OrderItem = Return v None"
    and "json_Unmarshal rawmap_value d Map.empty = Return rawObject None"
    and "OrderItem.Type v \<noteq> OrderItemTypeCoupon" "OrderItem.Type v \<noteq> OrderItemTypeShipping"
       "OrderItem.Type v \<noteq> OrderItemTypeSKU"
  shows "OrderItem_UnmarshalJSON X d oi = Return (v\<lparr>Parent := Some zero_OrderItemParent\<rparr>) None"
  using assms by (auto simp: OrderItem_UnmarshalJSON_def)

lemma OrderItem_step1_error:
  fixes X :: "'r resources" and v :: "'r OrderItem"
  assumes "json_Unmarshal (struct_value orderItem_fields) d zero_OrderItem = Return v (Some e)"
  shows "OrderItem_UnmarshalJSON X d oi = Return oi (Some e)"
  using assms by (simp add: OrderItem_UnmarshalJSON_def)

lemma OrderItem_step2_error:
  fixes X :: "'r resources" and v :: "'r OrderItem"
  assumes "json_Unmarshal (struct_value orderItem_fields) d zero_OrderItem = Return v None"
   and "json_Unmarshal rawmap_value d Map.empty = Return rawObject (Some e)"
  shows "OrderItem_UnmarshalJSON X d oi = Return (v\<lparr>Parent := Some zero_OrderItemParent\<rparr>) (Some e)"
  using assms by (simp add: OrderItem_UnmarshalJSON_def)

lemma step1_ok_shape:
  assumes "json_Unmarshal (struct_value fs) d z = Return v None"
  shows "d = Valid JNull \<or> (\<exists>kvs. d = Valid (JObj kvs))"
  using assms by (auto simp: json_Unmarshal_def struct_value_def split: data.splits json.splits decoded.splits)

lemma step2_of_object:
  "json_Unmarshal rawmap_value (Valid (JObj kvs)) Map.empty = Return (rawmap_members kvs Map.empty) None"
  "json_Unmarshal rawmap_value (Valid JNull) Map.empty = Return Map.empty None"
  by (simp_all add: json_Unmarshal_def rawmap_value_def)

lemma rawmap_members_absent:
  "key \<notin> fst ` set kvs \<Longrightarrow> rawmap_members kvs m key = m key"
  by (induction kvs arbitrary: m) auto

lemma rawmap_members_not_null:
  assumes "\<And>r. m key = Some (Some r) \<Longrightarrow> r \<noteq> JNull"
  shows "rawmap_members kvs m key = Some (Some r) \<Longrightarrow> r \<noteq> JNull"
  using assms
proof (induction kvs arbitrary: m)
  case Nil
  then show ?case by simp
next
  case (Cons kv kvs)
  obtain k v where kv: "kv = (k, v)" by (cases kv)
  show ?case
  proof (rule Cons.IH [of "m(k \<mapsto> (case v of JNull \<Rightarrow> None | _ \<Rightarrow> Some v))"])
    show "rawmap_members kvs (m(k \<mapsto> (case v of JNull \<Rightarrow> None | _ \<Rightarrow> Some v))) key = Some (Some r)"
      using Cons.prems(1) kv by simp
  next
    fix r' assume "(m(k \<mapsto> (case v of JNull \<Rightarrow> None | _ \<Rightarrow> Some v))) key = Some (Some r')"
    then show "r' \<noteq> JNull"
      using Cons.prems(2) by (auto split: if_splits json.splits)
  qed
qed

lemma json_Unmarshal_resource_ptr_Panic:
  "json_Unmarshal (ptr_value (resource_value X t) z) d cur = Panic p \<Longrightarrow> p = In_resource t"
  by (auto simp: json_Unmarshal_def ptr_value_def resource_value_def
      split: data.splits decoded.splits json.splits resource_result.splits)

lemma OrderItem_never_Nil_Parent_SKU:
  "OrderItem_UnmarshalJSON X d oi \<noteq> Panic Nil_Parent_SKU"
proof
  assume a: "OrderItem_UnmarshalJSON X d oi = Panic Nil_Parent_SKU"
  then obtain v rawObject raw sku e where
    "json_Unmarshal (ptr_value (resource_value X TSKU) (zero_of X TSKU)) (Valid raw) None
       = Return sku (Some e)" "sku = None"
    by (auto simp: OrderItem_UnmarshalJSON_def zero_OrderItemParent_def orderItem_step1_not_Panic
        Let_def split: call.splits option.splits if_splits
        dest: json_Unmarshal_resource_ptr_Panic)
  then show False
    by (auto dest: json_Unmarshal_ptr_Valid)
qed

lemma index_rawmap_members_not_null:
  "index (rawmap_members kvs Map.empty) key = Some raw \<Longrightarrow> raw \<noteq> JNull"
proof -
  assume "index (rawmap_members kvs Map.empty) key = Some raw"
  then have "rawmap_members kvs Map.empty key = Some (Some raw)"
    by (auto simp: index_def split: option.splits)
  then show ?thesis
    by (rule rawmap_members_not_null [rotated]) simp
qed

lemma json_Unmarshal_string_ok:
  "json_Unmarshal string_value (Valid raw) cur = Return i None \<Longrightarrow> raw \<noteq> JNull \<Longrightarrow> raw = JStr i"
  by (auto simp: json_Unmarshal_def string_value_def split: json.splits)

lemma json_Unmarshal_ptr_ok:
  "json_Unmarshal (ptr_value dec z) (Valid raw) None = Return sku None \<Longrightarrow> raw \<noteq> JNull \<Longrightarrow>
   \<exists>s. dec raw z = Done s None \<and> sku = Some s"
  by (cases raw; cases "dec raw z") (auto simp: json_Unmarshal_def ptr_value_def)

lemmas decode_defs =
  OrderItem_UnmarshalJSON_def json_Unmarshal_def struct_value_def orderItem_fields_def
  field_def find_field_def string_value_def int64_value_def bool_value_def rawmap_value_def
  index_def zero_OrderItem_def zero_OrderItemParent_def ptr_value_def resource_value_def
  spec_resources_def ascii_lower_def

section \<open>The parent of an order item\<close>

text \<open>
  C1. The spec's example: decoding \<^verbatim>\<open>{"type": "coupon", "parent": "coup_1", ...}\<close> should succeed
  with \<^verbatim>\<open>Parent.ID == "coup_1"\<close> and \<^verbatim>\<open>Parent.Type == coupon\<close>, and likewise for a shipping item.
  The code does succeed and does fill \<^verbatim>\<open>Parent.ID\<close>, but it leaves \<^verbatim>\<open>Parent.Type\<close> empty: the tag
  is assigned under \<^verbatim>\<open>err != nil\<close>. This holds for every decoder of the other resources and
  every earlier content of the receiver.
\<close>

theorem C1_coupon_parent_is_not_tagged:
  "OrderItem_UnmarshalJSON X
     (Valid (JObj [(''type'', JStr ''coupon''), (''parent'', JStr ''coup_1''),
                   (''amount'', JInt 500), (''currency'', JStr ''usd'')])) oi =
   Return \<lparr>OrderItem.Amount = 500, Currency = ''usd'', Description = [],
           Parent = Some \<lparr>OrderItemParent.ID = ''coup_1'', SKU = None, Type = []\<rparr>,
           Quantity = 0, Type = OrderItemTypeCoupon\<rparr> None
   \<and> OrderItem_UnmarshalJSON X
     (Valid (JObj [(''type'', JStr ''shipping''), (''parent'', JStr ''ship_1''),
                   (''amount'', JInt 500), (''currency'', JStr ''usd'')])) oi =
   Return \<lparr>OrderItem.Amount = 500, Currency = ''usd'', Description = [],
           Parent = Some \<lparr>OrderItemParent.ID = ''ship_1'', SKU = None, Type = []\<rparr>,
           Quantity = 0, Type = OrderItemTypeShipping\<rparr> None"
  by (simp add: decode_defs)

text \<open>
  C2. In \<^verbatim>\<open>OrderItem.UnmarshalJSON\<close>, for every payload whose type is coupon, shipping or sku (and
  that reaches the decode of the parent fragment), \<^verbatim>\<open>Parent.Type\<close> is assigned only when the
  type-specific decode of the fragment returns an error; when that decode succeeds,
  \<^verbatim>\<open>Parent.Type\<close> is left empty.
\<close>

theorem C2_tag_set_exactly_when_parent_decode_fails:
  fixes X :: "'r resources" and v :: "'r OrderItem"
  assumes "json_Unmarshal (struct_value orderItem_fields) d zero_OrderItem = Return v None"
    and "json_Unmarshal rawmap_value d Map.empty = Return rawObject None"
    and "index rawObject ''parent'' = Some raw"
  shows "(OrderItem.Type v = OrderItemTypeCoupon \<or> OrderItem.Type v = OrderItemTypeShipping \<longrightarrow>
            (\<forall>i err. json_Unmarshal string_value (Valid raw) [] = Return i err \<longrightarrow>
               (\<exists>oi'. OrderItem_UnmarshalJSON X d oi = Return oi' err \<and>
                  map_option OrderItemParent.Type (Parent oi') =
                    Some (if err = None then [] else OrderItem.Type v))))
       \<and> (OrderItem.Type v = OrderItemTypeSKU \<longrightarrow>
            (\<forall>sku err.
               json_Unmarshal (ptr_value (resource_value X TSKU) (zero_of X TSKU)) (Valid raw) None
                 = Return sku err \<longrightarrow>
               (\<exists>oi'. OrderItem_UnmarshalJSON X d oi = Return oi' err \<and>
                  map_option OrderItemParent.Type (Parent oi') =
                    Some (if err = None then [] else OrderItemParentTypeSKU))))"
proof (intro conjI impI allI)
  fix i err
  assume "OrderItem.Type v = OrderItemTypeCoupon \<or> OrderItem.Type v = OrderItemTypeShipping"
    and "json_Unmarshal string_value (Valid raw) [] = Return i err"
  from OrderItem_string_parent [OF assms this, of X oi]
  show "\<exists>oi'. OrderItem_UnmarshalJSON X d oi = Return oi' err \<and>
          map_option OrderItemParent.Type (Parent oi') =
            Some (if err = None then [] else OrderItem.Type v)"
    by simp
next
  fix sku err
  assume ty: "OrderItem.Type v = OrderItemTypeSKU"
    and dec: "json_Unmarshal (ptr_value (resource_value X TSKU) (zero_of X TSKU)) (Valid raw) None
                = Return sku err"
  show "\<exists>oi'. OrderItem_UnmarshalJSON X d oi = Return oi' err \<and>
          map_option OrderItemParent.Type (Parent oi') =
            Some (if err = None then [] else OrderItemParentTypeSKU)"
  proof (cases sku)
    case None
    with dec have "err = None" by (auto dest: json_Unmarshal_ptr_Valid)
    with assms ty dec None show ?thesis
      by (simp add: OrderItem_UnmarshalJSON_def zero_OrderItemParent_def)
  next
    case (Some s)
    with OrderItem_sku_parent [OF assms ty, of X s err oi] dec show ?thesis
      by simp
  qed
qed

text \<open>
  The theorem at a coupon whose parent is a string (no error, no tag) and at a SKU item
  whose parent is a number (an error, the tag set).
\<close>

theorem C2_witness:
  "(\<exists>oi'. OrderItem_UnmarshalJSON spec_resources
           (Valid (JObj [(''type'', JStr ''coupon''), (''parent'', JStr ''coup_1'')]))
           zero_OrderItem = Return oi' None
         \<and> map_option OrderItemParent.Type (Parent oi') = Some [])
   \<and> (\<exists>oi'. OrderItem_UnmarshalJSON spec_resources
           (Valid (JObj [(''type'', JStr ''sku''), (''parent'', JInt 5)]))
           zero_OrderItem = Return oi' (Some UnmarshalTypeError)
         \<and> map_option OrderItemParent.Type (Parent oi') = Some OrderItemParentTypeSKU)"
proof -
  let ?c = "[(''type'', JStr ''coupon''), (''parent'', JStr ''coup_1'')]"
  let ?s = "[(''type'', JStr ''sku''), (''parent'', JInt 5)]"
  let ?vc = "\<lparr>OrderItem.Amount = 0, Currency = [], Description = [], Parent = None,
              Quantity = 0, Type = OrderItemTypeCoupon\<rparr> :: Resource OrderItem"
  let ?vs = "\<lparr>OrderItem.Amount = 0, Currency = [], Description = [], Parent = None,
              Quantity = 0, Type = OrderItemTypeSKU\<rparr> :: Resource OrderItem"
  have c1: "json_Unmarshal (struct_value orderItem_fields) (Valid (JObj ?c)) zero_OrderItem
              = Return ?vc None"
    by (simp add: decode_defs)
  have c3: "index (rawmap_members ?c Map.empty) ''parent'' = Some (JStr ''coup_1'')"
    by (simp add: index_def)
  have c4: "json_Unmarshal string_value (Valid (JStr ''coup_1'')) [] = Return ''coup_1'' None"
    by (simp add: decode_defs)
  have s1: "json_Unmarshal (struct_value orderItem_fields) (Valid (JObj ?s)) zero_OrderItem
              = Return ?vs None"
    by (simp add: decode_defs)
  have s3: "index (rawmap_members ?s Map.empty) ''parent'' = Some (JInt 5)"
    by (simp add: index_def)
  have s4: "json_Unmarshal (ptr_value (resource_value spec_resources TSKU)
              (zero_of spec_resources TSKU)) (Valid (JInt 5)) None
             = Return (Some \<lparr>Resource.ID = []\<rparr>) (Some UnmarshalTypeError)"
    by (simp add: decode_defs)
  from C2_tag_set_exactly_when_parent_decode_fails
         [OF c1 step2_of_object(1) c3, of spec_resources zero_OrderItem] c4
       C2_tag_set_exactly_when_parent_decode_fails
         [OF s1 step2_of_object(1) s3, of spec_resources zero_OrderItem] s4
  show ?thesis by simp
qed

text \<open>
  C3 as stated (a failure of the decode of the parent fragment is swallowed and the item
  decode reports success) is false: for \<^verbatim>\<open>{"type": "coupon", "parent": 5}\<close> the first two decodes
  succeed, the decode of the fragment \<^verbatim>\<open>5\<close> into a string fails, and the method returns that
  error.
\<close>

theorem C3_parent_decode_error_is_returned:
  "(\<exists>v rawObject.
      json_Unmarshal (struct_value orderItem_fields)
        (Valid (JObj [(''type'', JStr ''coupon''), (''parent'', JInt 5)]))
        (zero_OrderItem :: Resource OrderItem) = Return v None
    \<and> json_Unmarshal rawmap_value
        (Valid (JObj [(''type'', JStr ''coupon''), (''parent'', JInt 5)])) Map.empty
          = Return rawObject None
    \<and> index rawObject ''parent'' = Some (JInt 5))
   \<and> json_Unmarshal string_value (Valid (JInt 5)) [] = Return [] (Some UnmarshalTypeError)
   \<and> OrderItem_UnmarshalJSON spec_resources
        (Valid (JObj [(''type'', JStr ''coupon''), (''parent'', JInt 5)])) zero_OrderItem =
       Return \<lparr>OrderItem.Amount = 0, Currency = [], Description = [],
               Parent = Some \<lparr>OrderItemParent.ID = [], SKU = None,
                              Type = OrderItemParentTypeCoupon\<rparr>,
               Quantity = 0, Type = OrderItemTypeCoupon\<rparr> (Some UnmarshalTypeError)"
  by (simp add: decode_defs)

text \<open>
  C3, amended. For every payload on which the first two decodes succeed and whose type is
  coupon, shipping or sku, an error of the type-specific decode of the parent fragment is
  the error that \<^verbatim>\<open>OrderItem.UnmarshalJSON\<close> returns: the code assigns it to the variable it
  returns at the end.
\<close>

theorem C3_amended_parent_decode_error_propagates:
  fixes X :: "'r resources" and v :: "'r OrderItem"
  assumes "json_Unmarshal (struct_value orderItem_fields) d zero_OrderItem = Return v None"
    and "json_Unmarshal rawmap_value d Map.empty = Return rawObject None"
    and "index rawObject ''parent'' = Some raw"
  shows "(OrderItem.Type v = OrderItemTypeCoupon \<or> OrderItem.Type v = OrderItemTypeShipping \<longrightarrow>
            (\<forall>i e. json_Unmarshal string_value (Valid raw) [] = Return i (Some e) \<longrightarrow>
               (\<exists>oi'. OrderItem_UnmarshalJSON X d oi = Return oi' (Some e))))
       \<and> (OrderItem.Type v = OrderItemTypeSKU \<longrightarrow>
            (\<forall>sku e.
               json_Unmarshal (ptr_value (resource_value X TSKU) (zero_of X TSKU)) (Valid raw) None
                 = Return sku (Some e) \<longrightarrow>
               (\<exists>oi'. OrderItem_UnmarshalJSON X d oi = Return oi' (Some e))))"
proof (intro conjI impI allI)
  fix i e
  assume "OrderItem.Type v = OrderItemTypeCoupon \<or> OrderItem.Type v = OrderItemTypeShipping"
    and "json_Unmarshal string_value (Valid raw) [] = Return i (Some e)"
  from OrderItem_string_parent [OF assms this, of X oi]
  show "\<exists>oi'. OrderItem_UnmarshalJSON X d oi = Return oi' (Some e)"
    by simp
next
  fix sku e
  assume ty: "OrderItem.Type v = OrderItemTypeSKU"
    and dec: "json_Unmarshal (ptr_value (resource_value X TSKU) (zero_of X TSKU)) (Valid raw) None
                = Return sku (Some e)"
  from dec obtain s where "sku = Some s"
    by (cases sku) (auto dest: json_Unmarshal_ptr_Valid)
  with OrderItem_sku_parent [OF assms ty, of X s "Some e" oi] dec
  show "\<exists>oi'. OrderItem_UnmarshalJSON X d oi = Return oi' (Some e)"
    by simp
qed

theorem C3_amended_witness:
  "\<exists>oi'. OrderItem_UnmarshalJSON spec_resources
          (Valid (JObj [(''type'', JStr ''sku''), (''parent'', JInt 5)])) zero_OrderItem
        = Return oi' (Some UnmarshalTypeError)"
proof -
  let ?kvs = "[(''type'', JStr ''sku''), (''parent'', JInt 5)]"
  let ?v = "\<lparr>OrderItem.Amount = 0, Currency = [], Description = [], Parent = None,
             Quantity = 0, Type = OrderItemTypeSKU\<rparr> :: Resource OrderItem"
  have 1: "json_Unmarshal (struct_value orderItem_fields) (Valid (JObj ?kvs)) zero_OrderItem
             = Return ?v None"
    by (simp add: decode_defs)
  have 2: "json_Unmarshal rawmap_value (Valid (JObj ?kvs)) Map.empty
             = Return (rawmap_members ?kvs Map.empty) None"
    by (rule step2_of_object)
  have 3: "index (rawmap_members ?kvs Map.empty) ''parent'' = Some (JInt 5)"
    by (simp add: index_def)
  have 4: "json_Unmarshal (ptr_value (resource_value spec_resources TSKU)
              (zero_of spec_resources TSKU)) (Valid (JInt 5)) None
             = Return (Some \<lparr>Resource.ID = []\<rparr>) (Some UnmarshalTypeError)"
    by (simp add: decode_defs)
  from C3_amended_parent_decode_error_propagates [OF 1 2 3, of spec_resources zero_OrderItem] 4
  show ?thesis by simp
qed

text \<open>
  C4. The spec's example: decoding \<^verbatim>\<open>{"type": "sku", "parent": {"id": "sku_1", ...}, ...}\<close> should
  give \<^verbatim>\<open>Parent.SKU.ID == "sku_1"\<close>, \<^verbatim>\<open>Parent.ID == "sku_1"\<close> and \<^verbatim>\<open>Parent.Type == sku\<close>. The code
  fills \<^verbatim>\<open>Parent.SKU\<close> and, the decode having succeeded, neither copies the ID nor sets the
  tag.
\<close>

theorem C4_sku_parent_is_not_tagged:
  "OrderItem_UnmarshalJSON spec_resources
     (Valid (JObj [(''type'', JStr ''sku''), (''parent'', JObj [(''id'', JStr ''sku_1'')]),
                   (''amount'', JInt 1500), (''quantity'', JInt 1)])) oi =
   Return \<lparr>OrderItem.Amount = 1500, Currency = [], Description = [],
           Parent = Some \<lparr>OrderItemParent.ID = [], SKU = Some \<lparr>Resource.ID = ''sku_1''\<rparr>,
                          Type = []\<rparr>,
           Quantity = 1, Type = OrderItemTypeSKU\<rparr> None"
  by (simp add: decode_defs)

text \<open>
  C6 as stated is false. On a successful decode of a coupon or shipping item \<^verbatim>\<open>Parent.ID\<close> need
  not be non-empty: the parent \<^verbatim>\<open>""\<close> is accepted and gives an empty \<^verbatim>\<open>Parent.ID\<close>. And on a
  successful decode of a SKU item \<^verbatim>\<open>Parent.ID\<close> is not the ID of the nested object: it stays
  empty (the copy stands under \<^verbatim>\<open>err != nil\<close>, as in C4).
\<close>

theorem C6_parent_ID_can_be_empty:
  "OrderItem_UnmarshalJSON spec_resources
     (Valid (JObj [(''type'', JStr ''coupon''), (''parent'', JStr [])])) zero_OrderItem =
   Return \<lparr>OrderItem.Amount = 0, Currency = [], Description = [],
           Parent = Some \<lparr>OrderItemParent.ID = [], SKU = None, Type = []\<rparr>,
           Quantity = 0, Type = OrderItemTypeCoupon\<rparr> None
   \<and> OrderItem_UnmarshalJSON spec_resources
     (Valid (JObj [(''type'', JStr ''sku''), (''parent'', JObj [(''id'', JStr ''sku_1'')])]))
     zero_OrderItem =
   Return \<lparr>OrderItem.Amount = 0, Currency = [], Description = [],
           Parent = Some \<lparr>OrderItemParent.ID = [], SKU = Some \<lparr>Resource.ID = ''sku_1''\<rparr>,
                          Type = []\<rparr>,
           Quantity = 0, Type = OrderItemTypeSKU\<rparr> None"
  by (simp add: decode_defs)

text \<open>
  C6, amended. For every payload on which \<^verbatim>\<open>OrderItem.UnmarshalJSON\<close> returns without an error,
  \<^verbatim>\<open>Parent\<close> is set; if the type is coupon or shipping, the payload is an object whose
  \<^verbatim>\<open>parent\<close> member (the last of that name) is a JSON string, and \<^verbatim>\<open>Parent.ID\<close> is that
  string, which may be empty; if the type is sku, \<^verbatim>\<open>Parent.SKU\<close> holds the SKU that the
  \<^verbatim>\<open>parent\<close> member decodes to without error. (Nothing is said of \<^verbatim>\<open>Parent.ID\<close> for a SKU item.)
\<close>

theorem C6_amended_parent_on_success:
  fixes X :: "'r resources"
  assumes "OrderItem_UnmarshalJSON X d oi = Return oi' None"
  shows "\<exists>p. Parent oi' = Some p \<and>
           (OrderItem.Type oi' = OrderItemTypeCoupon \<or> OrderItem.Type oi' = OrderItemTypeShipping \<longrightarrow>
              (\<exists>kvs. d = Valid (JObj kvs) \<and>
                 index (rawmap_members kvs Map.empty) ''parent'' = Some (JStr (OrderItemParent.ID p))))
         \<and> (OrderItem.Type oi' = OrderItemTypeSKU \<longrightarrow>
              (\<exists>kvs raw s. d = Valid (JObj kvs) \<and>
                 index (rawmap_members kvs Map.empty) ''parent'' = Some raw \<and>
                 resource_value X TSKU raw (zero_of X TSKU) = Done s None \<and>
                 OrderItemParent.SKU p = Some s))"
proof -
  from assms obtain v :: "'r OrderItem"
    where 1: "json_Unmarshal (struct_value orderItem_fields) d zero_OrderItem = Return v None"
    by (cases "json_Unmarshal (struct_value orderItem_fields) d (zero_OrderItem :: 'r OrderItem)")
       (auto simp: OrderItem_UnmarshalJSON_def split: option.splits)
  from step1_ok_shape [OF 1] show ?thesis
  proof
    assume d: "d = Valid JNull"
    with 1 have "v = zero_OrderItem"
      by (simp add: json_Unmarshal_def struct_value_def)
    with d assms OrderItem_other_type [OF 1 step2_of_object(2) [unfolded d [symmetric]], of X oi]
    show ?thesis
      by (simp add: zero_OrderItem_def)
  next
    assume "\<exists>kvs. d = Valid (JObj kvs)"
    then obtain kvs where d: "d = Valid (JObj kvs)" ..
    let ?raw = "rawmap_members kvs Map.empty"
    have 2: "json_Unmarshal rawmap_value d Map.empty = Return ?raw None"
      unfolding d by (rule step2_of_object)
    consider (str) "OrderItem.Type v = OrderItemTypeCoupon \<or> OrderItem.Type v = OrderItemTypeShipping"
      | (sku) "OrderItem.Type v = OrderItemTypeSKU"
      | (other) "OrderItem.Type v \<noteq> OrderItemTypeCoupon" "OrderItem.Type v \<noteq> OrderItemTypeShipping"
          "OrderItem.Type v \<noteq> OrderItemTypeSKU"
      by blast
    then show ?thesis
    proof cases
      case str
      show ?thesis
      proof (cases "index ?raw ''parent''")
        case None
        from str have "OrderItem.Type v = OrderItemTypeCoupon \<or> OrderItem.Type v = OrderItemTypeShipping
            \<or> OrderItem.Type v = OrderItemTypeSKU"
          by blast
        from OrderItem_no_parent [OF 1 2 None this, of X oi] assms show ?thesis by simp
      next
        case (Some raw)
        obtain i err where s: "json_Unmarshal string_value (Valid raw) [] = Return i err"
          by (cases "json_Unmarshal string_value (Valid raw) []") simp_all
        from OrderItem_string_parent [OF 1 2 Some str s, of X oi] assms
        have oi': "oi' = v\<lparr>Parent := Some \<lparr>OrderItemParent.ID = i, SKU = None, Type = []\<rparr>\<rparr>"
          and err: "err = None"
          by (auto split: if_splits)
        from s err Some have "raw = JStr i"
          by (auto intro: json_Unmarshal_string_ok dest: index_rawmap_members_not_null)
        with oi' Some d str show ?thesis by auto
      qed
    next
      case sku
      show ?thesis
      proof (cases "index ?raw ''parent''")
        case None
        from sku have "OrderItem.Type v = OrderItemTypeCoupon \<or> OrderItem.Type v = OrderItemTypeShipping
            \<or> OrderItem.Type v = OrderItemTypeSKU"
          by blast
        from OrderItem_no_parent [OF 1 2 None this, of X oi] assms show ?thesis by simp
      next
        case (Some raw)
        let ?dec = "json_Unmarshal (ptr_value (resource_value X TSKU) (zero_of X TSKU)) (Valid raw) None"
        from assms 1 2 Some sku obtain p where
          r: "?dec = Return p None" and oi': "oi' = v\<lparr>Parent := Some \<lparr>OrderItemParent.ID = [], SKU = p, Type = []\<rparr>\<rparr>"
          by (cases ?dec)
             (auto simp: OrderItem_UnmarshalJSON_def zero_OrderItemParent_def Let_def
                split: if_splits option.splits)
        from json_Unmarshal_ptr_ok [OF r] Some obtain s where
          "resource_value X TSKU raw (zero_of X TSKU) = Done s None" "p = Some s"
          by (auto dest: index_rawmap_members_not_null)
        with oi' Some d sku show ?thesis by auto
      qed
    next
      case other
      from OrderItem_other_type [OF 1 2 other, of X oi] assms other show ?thesis
        by auto
    qed
  qed
qed

theorem C6_amended_witness:
  "\<exists>p. Some \<lparr>OrderItemParent.ID = ''ship_1'', SKU = None :: Resource option, Type = []\<rparr> = Some p \<and>
     (\<exists>kvs. Valid (JObj [(''type'', JStr ''shipping''), (''parent'', JStr ''ship_1'')])
               = Valid (JObj kvs) \<and>
        index (rawmap_members kvs Map.empty) ''parent'' = Some (JStr (OrderItemParent.ID p)))"
proof -
  have "OrderItem_UnmarshalJSON spec_resources
          (Valid (JObj [(''type'', JStr ''shipping''), (''parent'', JStr ''ship_1'')]))
          zero_OrderItem =
        Return \<lparr>OrderItem.Amount = 0, Currency = [], Description = [],
           Parent = Some \<lparr>OrderItemParent.ID = ''ship_1'', SKU = None, Type = []\<rparr>,
           Quantity = 0, Type = OrderItemTypeShipping\<rparr> None"
    by (simp add: decode_defs)
  from C6_amended_parent_on_success [OF this] show ?thesis
    by simp
qed

section \<open>Panics of the decoder of order items\<close>

text \<open>
  C9. For a JSON order-item object whose type is coupon, shipping or sku and which has no
  \<^verbatim>\<open>parent\<close> member, \<^verbatim>\<open>rawObject["parent"]\<close> is a \<^verbatim>\<open>nil\<close> pointer and
  \<^verbatim>\<open>OrderItem.UnmarshalJSON\<close> dereferences it: the call panics, it returns neither a value nor
  an error. This holds for every such object, whatever its other members.
\<close>

theorem C9_missing_parent_panics:
  fixes X :: "'r resources" and v :: "'r OrderItem"
  assumes "json_Unmarshal (struct_value orderItem_fields) (Valid (JObj kvs)) zero_OrderItem
             = Return v None"
    and "OrderItem.Type v = OrderItemTypeCoupon \<or> OrderItem.Type v = OrderItemTypeShipping
           \<or> OrderItem.Type v = OrderItemTypeSKU"
    and "''parent'' \<notin> fst ` set kvs"
  shows "OrderItem_UnmarshalJSON X (Valid (JObj kvs)) oi = Panic Nil_rawObject_parent"
proof -
  have "index (rawmap_members kvs Map.empty) ''parent'' = None"
    using assms(3) by (simp add: index_def rawmap_members_absent)
  with assms(1) step2_of_object(1) show ?thesis
    using assms(2) by (rule OrderItem_no_parent)
qed

theorem C9_witness:
  "OrderItem_UnmarshalJSON spec_resources
     (Valid (JObj [(''type'', JStr ''coupon''), (''amount'', JInt 500)])) zero_OrderItem
   = Panic Nil_rawObject_parent
   \<and> OrderItem_UnmarshalJSON spec_resources
     (Valid (JObj [(''type'', JStr ''sku''), (''amount'', JInt 500)])) zero_OrderItem
   = Panic Nil_rawObject_parent"
proof -
  let ?c = "[(''type'', JStr ''coupon''), (''amount'', JInt 500)]"
  let ?s = "[(''type'', JStr ''sku''), (''amount'', JInt 500)]"
  let ?vc = "\<lparr>OrderItem.Amount = 500, Currency = [], Description = [], Parent = None,
              Quantity = 0, Type = OrderItemTypeCoupon\<rparr> :: Resource OrderItem"
  let ?vs = "\<lparr>OrderItem.Amount = 500, Currency = [], Description = [], Parent = None,
              Quantity = 0, Type = OrderItemTypeSKU\<rparr> :: Resource OrderItem"
  have c1: "json_Unmarshal (struct_value orderItem_fields) (Valid (JObj ?c)) zero_OrderItem
              = Return ?vc None"
    by (simp add: decode_defs)
  have s1: "json_Unmarshal (struct_value orderItem_fields) (Valid (JObj ?s)) zero_OrderItem
              = Return ?vs None"
    by (simp add: decode_defs)
  have c3: "''parent'' \<notin> fst ` set ?c" and s3: "''parent'' \<notin> fst ` set ?s"
    by simp_all
  from C9_missing_parent_panics [OF c1 _ c3, of spec_resources zero_OrderItem]
       C9_missing_parent_panics [OF s1 _ s3, of spec_resources zero_OrderItem]
  show ?thesis by simp
qed

text \<open>
  C10 as stated is false: no payload, no decoder of the other resources and no receiver make
  the sku branch read \<^verbatim>\<open>oi.Parent.SKU.ID\<close> through a \<^verbatim>\<open>nil\<close> \<^verbatim>\<open>Parent.SKU\<close>. \<^verbatim>\<open>json.Unmarshal\<close>
  points \<^verbatim>\<open>Parent.SKU\<close> to a new SKU before it looks at a fragment that is not \<^verbatim>\<open>null\<close>, and a
  \<^verbatim>\<open>null\<close> fragment does not reach the decode (it is a \<^verbatim>\<open>nil\<close> entry of \<^verbatim>\<open>rawObject\<close>, the panic of
  C9) and would give no error.
\<close>

theorem C10_Parent_SKU_is_never_nil_on_the_error_path:
  "\<not> (\<exists>(X :: 'r resources) d oi. OrderItem_UnmarshalJSON X d oi = Panic Nil_Parent_SKU)"
  by (simp add: OrderItem_never_Nil_Parent_SKU)

text \<open>
  C10, amended. For every order-item payload of type sku whose \<^verbatim>\<open>parent\<close> fragment fails to
  decode as a SKU, \<^verbatim>\<open>Parent.SKU\<close> is not \<^verbatim>\<open>nil\<close> after the failed decode: the sku branch copies
  the ID of the SKU the decode left, sets \<^verbatim>\<open>Parent.Type\<close> to sku and returns the error of the
  decode; it does not panic.
\<close>

theorem C10_amended_failed_sku_decode_returns_error:
  fixes X :: "'r resources" and v :: "'r OrderItem"
  assumes "json_Unmarshal (struct_value orderItem_fields) d zero_OrderItem = Return v None"
    and "json_Unmarshal rawmap_value d Map.empty = Return rawObject None"
    and "index rawObject ''parent'' = Some raw"
    and "OrderItem.Type v = OrderItemTypeSKU"
    and "json_Unmarshal (ptr_value (resource_value X TSKU) (zero_of X TSKU)) (Valid raw) None
           = Return sku (Some e)"
  shows "\<exists>s. sku = Some s \<and>
           OrderItem_UnmarshalJSON X d oi =
             Return (v\<lparr>Parent := Some \<lparr>OrderItemParent.ID = ID_of_SKU X s, SKU = Some s,
                                       Type = OrderItemParentTypeSKU\<rparr>\<rparr>) (Some e)"
proof -
  from assms(5) obtain s where s: "sku = Some s"
    by (cases sku) (auto dest: json_Unmarshal_ptr_Valid)
  with OrderItem_sku_parent [OF assms(1-4), of X s "Some e" oi] assms(5)
  show ?thesis by simp
qed

theorem C10_amended_witness:
  "OrderItem_UnmarshalJSON spec_resources
     (Valid (JObj [(''type'', JStr ''sku''), (''parent'', JStr ''sku_1'')])) zero_OrderItem =
   Return \<lparr>OrderItem.Amount = 0, Currency = [], Description = [],
           Parent = Some \<lparr>OrderItemParent.ID = [], SKU = Some \<lparr>Resource.ID = []\<rparr>,
                          Type = OrderItemParentTypeSKU\<rparr>,
           Quantity = 0, Type = OrderItemTypeSKU\<rparr> (Some UnmarshalTypeError)"
proof -
  let ?kvs = "[(''type'', JStr ''sku''), (''parent'', JStr ''sku_1'')]"
  let ?v = "\<lparr>OrderItem.Amount = 0, Currency = [], Description = [], Parent = None,
             Quantity = 0, Type = OrderItemTypeSKU\<rparr> :: Resource OrderItem"
  have 1: "json_Unmarshal (struct_value orderItem_fields) (Valid (JObj ?kvs)) zero_OrderItem
             = Return ?v None"
    by (simp add: decode_defs)
  have 3: "index (rawmap_members ?kvs Map.empty) ''parent'' = Some (JStr ''sku_1'')"
    by (simp add: index_def)
  have 4: "OrderItem.Type ?v = OrderItemTypeSKU"
    by simp
  have 5: "json_Unmarshal (ptr_value (resource_value spec_resources TSKU)
              (zero_of spec_resources TSKU)) (Valid (JStr ''sku_1'')) None
             = Return (Some \<lparr>Resource.ID = []\<rparr>) (Some UnmarshalTypeError)"
    by (simp add: decode_defs)
  from C10_amended_failed_sku_decode_returns_error
         [OF 1 step2_of_object(1) 3 4 5, of zero_OrderItem]
  show ?thesis by (simp add: spec_resources_def)
qed

section \<open>Facts about the decoder of orders\<close>

lemma find_field_name:
  "find_field fs key = Some f \<Longrightarrow> \<exists>n. (n, f) \<in> set fs \<and> fold_name n = fold_name key"
proof (cases "map_of fs key")
  case None
  assume "find_field fs key = Some f"
  with None obtain x where x: "find (\<lambda>f. fold_name (fst f) = fold_name key) fs = Some x" "f = snd x"
    by (auto simp: find_field_def)
  then have "(fst x, f) \<in> set fs"
    using find_Some_in_set [of _ fs x] by simp
  moreover from x(1) have "fold_name (fst x) = fold_name key"
    by (auto simp: find_Some_iff)
  ultimately show ?thesis by blast
next
  case (Some g)
  assume "find_field fs key = Some f"
  with Some show ?thesis
    by (auto simp: find_field_def dest: map_of_SomeD)
qed

lemma find_field_None:
  "find_field fs key = None \<Longrightarrow> (n, f) \<in> set fs \<Longrightarrow> fold_name n \<noteq> fold_name key"
  by (auto simp: find_field_def find_None_iff split: option.splits)

lemma map_decoded_eq_Done: "map_decoded g r = Done y e \<longleftrightarrow> (\<exists>x. r = Done x e \<and> y = g x)"
  by (cases r) auto

lemma string_value_Done_None:
  "string_value j cur = Done s None \<longleftrightarrow> s = (case j of JStr t \<Rightarrow> t | _ \<Rightarrow> cur) \<and> (j = JNull \<or> (\<exists>t. j = JStr t))"
  by (cases j) (auto simp: string_value_def)

lemma order_field_ID:
  assumes "(n, f) \<in> set (order_fields X)" and "f j s = Done s' None"
  shows "fold_name n = n"
    and "Order.ID s' = (if n = ''id'' then (case j of JStr t \<Rightarrow> t | _ \<Rightarrow> Order.ID s) else Order.ID s)"
  using assms
  by (auto simp: order_fields_def field_def ascii_lower_def map_decoded_eq_Done
      string_value_Done_None)

lemma object_members_order_ID:
  "object_members (order_fields X) kvs s = Done s' None \<Longrightarrow>
   Order.ID s' = id_member kvs (Order.ID s)"
proof (induction kvs arbitrary: s)
  case Nil
  then show ?case by simp
next
  case (Cons kv kvs)
  obtain key v where kv: "kv = (key, v)" by (cases kv)
  show ?case
  proof (cases "find_field (order_fields X) key")
    case None
    have "(''id'', snd (field ''id'' Order.ID Order.ID_update string_value)) \<in> set (order_fields X)"
      by (simp add: order_fields_def field_def)
    from find_field_None [OF None this] have "fold_name key \<noteq> ''id''"
      by (auto simp: ascii_lower_def)
    with None kv Cons show ?thesis by simp
  next
    case (Some f)
    then obtain n where n: "(n, f) \<in> set (order_fields X)" "fold_name n = fold_name key"
      using find_field_name by blast
    from Cons.prems Some kv obtain s1 where
      1: "f v s = Done s1 None" and 2: "object_members (order_fields X) kvs s1 = Done s' None"
      by (auto split: decoded.splits)
    from order_field_ID [OF n(1) 1] n(2)
    have "Order.ID s1 =
            (if fold_name key = ''id'' then (case v of JStr t \<Rightarrow> t | _ \<Rightarrow> Order.ID s) else Order.ID s)"
      by auto
    with Cons.IH [OF 2] kv show ?thesis by simp
  qed
qed

lemma Order_bare_string:
  "Order_UnmarshalJSON X (Valid (JStr s)) ord = Return (ord\<lparr>Order.ID := s\<rparr>) None"
  by (simp add: Order_UnmarshalJSON_def ParseID_def)

lemma ParseID_False: "ParseID d = (i, False) \<longleftrightarrow> i = [] \<and> (\<forall>s. d \<noteq> Valid (JStr s))"
  by (auto simp: ParseID_def split: data.splits json.splits)

lemma Order_not_bare_string:
  assumes "\<And>s. d \<noteq> Valid (JStr s)"
  shows "Order_UnmarshalJSON X d ord =
           (case json_Unmarshal (struct_value (order_fields X)) d (zero_Order X) of
              Panic p \<Rightarrow> Panic p
            | Return v (Some err) \<Rightarrow> Return ord (Some err)
            | Return v None \<Rightarrow> Return v None)"
proof -
  from assms have "ParseID d = ([], False)"
    by (simp add: ParseID_False)
  then show ?thesis
    by (simp add: Order_UnmarshalJSON_def)
qed

lemma struct_other_shape:
  "other_shape d \<Longrightarrow> json_Unmarshal (struct_value fs) d z = Return z (Some (shape_error d))"
  by (auto simp: other_shape_def shape_error_def json_Unmarshal_def struct_value_def
      split: data.splits json.splits)

lemma rawmap_error_shape:
  "json_Unmarshal rawmap_value d m = Return m' (Some e) \<Longrightarrow>
   e = shape_error d \<and> (other_shape d \<or> (\<exists>s. d = Valid (JStr s)))"
  by (auto simp: other_shape_def shape_error_def json_Unmarshal_def rawmap_value_def
      split: data.splits json.splits)

lemma struct_bare_string:
  "json_Unmarshal (struct_value fs) (Valid (JStr s)) z = Return z (Some UnmarshalTypeError)"
  by (simp add: json_Unmarshal_def struct_value_def)

lemmas order_defs =
  Order_UnmarshalJSON_def ParseID_def order_fields_def zero_Order_def shipping_fields_def
  shippingMethod_fields_def deliveryEstimate_fields_def statusTransitions_fields_def
  zero_Shipping_def zero_ShippingMethod_def zero_DeliveryEstimate_def
  zero_StatusTransitions_def slice_value_def map_value_def unmarshaler_value_def

section \<open>The order: a bare reference or a full object\<close>


text \<open>
  C7 as stated (after every successful call the \<^verbatim>\<open>ID\<close> is populated) is false: an object with
  no \<^verbatim>\<open>id\<close> member decodes without error and leaves \<^verbatim>\<open>ID\<close> empty, and so does the bare
  string \<^verbatim>\<open>""\<close>. Nothing in the decoder asks for an \<^verbatim>\<open>id\<close>.
\<close>

theorem C7_ID_can_be_empty:
  "Order_UnmarshalJSON spec_resources
     (Valid (JObj [(''amount'', JInt 1500), (''status'', JStr ''paid'')]))
     (zero_Order spec_resources) =
     Return \<lparr>Order.Amount = 1500, AmountReturned = 0, Application = [], ApplicationFee = 0,
       Charge = None, Created = 0, Currency = [], Customer = \<lparr>Resource.ID = []\<rparr>, Email = [],
       ID = [], Items = [], Livemode = False, Metadata = Map.empty, Returns = None,
       SelectedShippingMethod = None, Shipping = None, ShippingMethods = [], Status = ''paid'',
       StatusTransitions = \<lparr>Canceled = 0, Fulfilled = 0, Paid = 0, Returned = 0\<rparr>,
       Updated = 0\<rparr> None
   \<and> Order.ID (zero_Order spec_resources) = []
   \<and> Order_UnmarshalJSON spec_resources (Valid (JStr [])) (zero_Order spec_resources) =
       Return (zero_Order spec_resources) None"
  by (simp add: decode_defs order_defs)

text \<open>
  C7, amended. After every successful \<^verbatim>\<open>Order.UnmarshalJSON\<close> call the \<^verbatim>\<open>ID\<close> is the payload's
  string when the payload is a bare reference string, and the string of the payload's \<^verbatim>\<open>id\<close>
  member when the payload is a full object; it is empty when the object has no \<^verbatim>\<open>id\<close> member
  (or only \<^verbatim>\<open>null\<close> ones) and when the payload is \<^verbatim>\<open>null\<close>.
\<close>

theorem C7_amended_ID_after_decode:
  assumes "Order_UnmarshalJSON X d ord = Return ord' None"
  shows "(\<exists>s. d = Valid (JStr s) \<and> Order.ID ord' = s)
       \<or> (d = Valid JNull \<and> Order.ID ord' = [])
       \<or> (\<exists>kvs. d = Valid (JObj kvs) \<and> Order.ID ord' = id_member kvs [])"
proof (cases "\<exists>s. d = Valid (JStr s)")
  case True
  with assms show ?thesis
    by (auto simp: Order_bare_string)
next
  case False
  then have "Order_UnmarshalJSON X d ord =
           (case json_Unmarshal (struct_value (order_fields X)) d (zero_Order X) of
              Panic p \<Rightarrow> Panic p
            | Return v (Some err) \<Rightarrow> Return ord (Some err)
            | Return v None \<Rightarrow> Return v None)"
    by (intro Order_not_bare_string) blast
  with assms have 1: "json_Unmarshal (struct_value (order_fields X)) d (zero_Order X) = Return ord' None"
    by (auto split: call.splits option.splits)
  from step1_ok_shape [OF 1] show ?thesis
  proof
    assume d: "d = Valid JNull"
    with 1 have "ord' = zero_Order X"
      by (simp add: json_Unmarshal_def struct_value_def)
    with d show ?thesis by (simp add: zero_Order_def)
  next
    assume "\<exists>kvs. d = Valid (JObj kvs)"
    then obtain kvs where d: "d = Valid (JObj kvs)" ..
    with 1 have "object_members (order_fields X) kvs (zero_Order X) = Done ord' None"
      by (auto simp: json_Unmarshal_def struct_value_def split: decoded.splits)
    from object_members_order_ID [OF this] d show ?thesis
      by (simp add: zero_Order_def)
  qed
qed

theorem C7_amended_witness:
  "(\<exists>s. Valid (JObj [(''id'', JStr ''order_123''), (''amount'', JInt 1500)]) = Valid (JStr s) \<and>
        ''order_123'' = s)
   \<or> (Valid (JObj [(''id'', JStr ''order_123''), (''amount'', JInt 1500)]) = Valid JNull \<and>
        ''order_123'' = [])
   \<or> (\<exists>kvs. Valid (JObj [(''id'', JStr ''order_123''), (''amount'', JInt 1500)]) = Valid (JObj kvs)
        \<and> ''order_123'' = id_member kvs [])"
proof -
  have "Order_UnmarshalJSON spec_resources
          (Valid (JObj [(''id'', JStr ''order_123''), (''amount'', JInt 1500)]))
          (zero_Order spec_resources) =
        Return ((zero_Order spec_resources)\<lparr>Order.ID := ''order_123'', Order.Amount := 1500\<rparr>) None"
    by (simp add: decode_defs order_defs)
  from C7_amended_ID_after_decode [OF this] show ?thesis
    by simp
qed

text \<open>
  C8 as stated is false at the payload \<^verbatim>\<open>null\<close>, which is neither a bare string nor an object:
  \<^verbatim>\<open>ParseID\<close> declines it, \<^verbatim>\<open>json.Unmarshal\<close> accepts \<^verbatim>\<open>null\<close> for a struct and changes nothing,
  and \<^verbatim>\<open>Order.UnmarshalJSON\<close> returns no error, leaving a zero order in place of the receiver.
  \<^verbatim>\<open>OrderItem.UnmarshalJSON\<close> accepts \<^verbatim>\<open>null\<close> in the same way.
\<close>

theorem C8_null_is_accepted:
  "ParseID (Valid JNull) = ([], False)
   \<and> Order_UnmarshalJSON spec_resources (Valid JNull)
       ((zero_Order spec_resources)\<lparr>Order.ID := ''order_123''\<rparr>) =
       Return (zero_Order spec_resources) None
   \<and> OrderItem_UnmarshalJSON spec_resources (Valid JNull) zero_OrderItem =
       Return (zero_OrderItem\<lparr>Parent := Some zero_OrderItemParent\<rparr>) None"
  by (simp add: decode_defs order_defs)

text \<open>
  C8, amended. For every payload that is not valid JSON or is a number, a boolean or an
  array, \<^verbatim>\<open>Order.UnmarshalJSON\<close> and \<^verbatim>\<open>OrderItem.UnmarshalJSON\<close> return the error of the decode
  and leave the receiver as it was. For every payload other than a bare string on which the
  decode against the fields of \<^verbatim>\<open>Order\<close> returns an error, \<^verbatim>\<open>Order.UnmarshalJSON\<close> returns that
  error and leaves the receiver as it was. \<^verbatim>\<open>OrderItem.UnmarshalJSON\<close> returns the error
  whenever its first decode (the scalar fields) or its second (the map of raw fragments)
  returns one.
\<close>

theorem C8_amended_decode_errors_are_returned:
  fixes X :: "'r resources"
  shows
  "(other_shape d \<longrightarrow>
      Order_UnmarshalJSON X d ord = Return ord (Some (shape_error d)) \<and>
      OrderItem_UnmarshalJSON X d oi = Return oi (Some (shape_error d)))
   \<and> ((\<forall>s. d \<noteq> Valid (JStr s)) \<longrightarrow>
        (\<forall>v e. json_Unmarshal (struct_value (order_fields X)) d (zero_Order X) = Return v (Some e)
           \<longrightarrow> Order_UnmarshalJSON X d ord = Return ord (Some e)))
   \<and> (\<forall>v e. json_Unmarshal (struct_value orderItem_fields) d (zero_OrderItem :: 'r OrderItem)
               = Return v (Some e)
          \<longrightarrow> OrderItem_UnmarshalJSON X d oi = Return oi (Some e))
   \<and> (\<forall>m e. json_Unmarshal rawmap_value d Map.empty = Return m (Some e)
          \<longrightarrow> OrderItem_UnmarshalJSON X d oi = Return oi (Some e))"
proof (intro conjI impI allI)
  assume o: "other_shape d"
  then have "\<And>s. d \<noteq> Valid (JStr s)"
    by (auto simp: other_shape_def)
  from Order_not_bare_string [OF this, of X ord]
    struct_other_shape [OF o, of "order_fields X" "zero_Order X"]
  show "Order_UnmarshalJSON X d ord = Return ord (Some (shape_error d))"
    by simp
  from struct_other_shape [OF o]
  show "OrderItem_UnmarshalJSON X d oi = Return oi (Some (shape_error d))"
    by (rule OrderItem_step1_error)
next
  fix v e
  assume "\<forall>s. d \<noteq> Valid (JStr s)"
    and "json_Unmarshal (struct_value (order_fields X)) d (zero_Order X) = Return v (Some e)"
  then show "Order_UnmarshalJSON X d ord = Return ord (Some e)"
    by (simp add: Order_not_bare_string)
next
  fix v :: "'r OrderItem" and e
  assume "json_Unmarshal (struct_value orderItem_fields) d zero_OrderItem = Return v (Some e)"
  then show "OrderItem_UnmarshalJSON X d oi = Return oi (Some e)"
    by (rule OrderItem_step1_error)
next
  fix m e
  assume "json_Unmarshal rawmap_value d Map.empty = Return m (Some e)"
  from rawmap_error_shape [OF this]
  have "json_Unmarshal (struct_value orderItem_fields) d (zero_OrderItem :: 'r OrderItem)
          = Return zero_OrderItem (Some e)"
    by (auto simp: struct_other_shape struct_bare_string shape_error_def)
  then show "OrderItem_UnmarshalJSON X d oi = Return oi (Some e)"
    by (rule OrderItem_step1_error)
qed

theorem C8_amended_witness:
  "Order_UnmarshalJSON spec_resources (Valid (JArr [])) (zero_Order spec_resources) =
     Return (zero_Order spec_resources) (Some UnmarshalTypeError)
   \<and> OrderItem_UnmarshalJSON spec_resources (Valid (JArr [])) zero_OrderItem =
     Return zero_OrderItem (Some UnmarshalTypeError)
   \<and> Order_UnmarshalJSON spec_resources (Valid (JObj [(''amount'', JStr ''1500'')]))
       (zero_Order spec_resources) =
     Return (zero_Order spec_resources) (Some UnmarshalTypeError)
   \<and> OrderItem_UnmarshalJSON spec_resources (Valid (JObj [(''quantity'', JFloat ''1.5'')]))
       zero_OrderItem =
     Return zero_OrderItem (Some UnmarshalTypeError)"
proof -
  let ?a = "Valid (JArr [])"
  let ?b = "Valid (JObj [(''amount'', JStr ''1500'')])"
  let ?c = "Valid (JObj [(''quantity'', JFloat ''1.5'')])"
  have a: "other_shape ?a" "shape_error ?a = UnmarshalTypeError"
    "json_Unmarshal rawmap_value ?a Map.empty = Return Map.empty (Some UnmarshalTypeError)"
    by (simp_all add: other_shape_def shape_error_def json_Unmarshal_def rawmap_value_def)
  have b: "\<forall>s. ?b \<noteq> Valid (JStr s)"
    "json_Unmarshal (struct_value (order_fields spec_resources)) ?b (zero_Order spec_resources)
       = Return (zero_Order spec_resources) (Some UnmarshalTypeError)"
    by (simp_all add: decode_defs order_defs)
  have c: "json_Unmarshal (struct_value orderItem_fields) ?c (zero_OrderItem :: Resource OrderItem)
       = Return zero_OrderItem (Some UnmarshalTypeError)"
    by (simp add: decode_defs)
  from C8_amended_decode_errors_are_returned
         [of ?a spec_resources "zero_Order spec_resources" zero_OrderItem] a
  have 1: "Order_UnmarshalJSON spec_resources ?a (zero_Order spec_resources) =
             Return (zero_Order spec_resources) (Some UnmarshalTypeError)"
    and 2: "OrderItem_UnmarshalJSON spec_resources ?a zero_OrderItem =
             Return zero_OrderItem (Some UnmarshalTypeError)"
    by simp_all
  from C8_amended_decode_errors_are_returned
         [of ?b spec_resources "zero_Order spec_resources" zero_OrderItem] b
  have 3: "Order_UnmarshalJSON spec_resources ?b (zero_Order spec_resources) =
             Return (zero_Order spec_resources) (Some UnmarshalTypeError)"
    by blast
  from C8_amended_decode_errors_are_returned
         [of ?c spec_resources "zero_Order spec_resources" zero_OrderItem] c
  have 4: "OrderItem_UnmarshalJSON spec_resources ?c zero_OrderItem =
             Return zero_OrderItem (Some UnmarshalTypeError)"
    by blast
  from 1 2 3 4 show ?thesis by simp
qed

end
